theory Spec2Isabelle
  imports Complex_Main
begin

section \<open>Python values\<close>

text \<open>
  The program is \<^verbatim>\<open>video_converter.py\<close>. Its functions are embedded one by one, under
  their own names. Three conventions hold throughout.
  \<^item> An exception is a value: a function that can raise returns \<open>py_error + 'a\<close>, with
    \<open>Inl\<close> for the exception that leaves the function.
  \<^item> A Python \<^verbatim>\<open>float\<close> is read as the real number it denotes and arithmetic on floats
    is exact: the rounding of IEEE 754 doubles, infinities and NaN are outside the model.
    Float division by zero raises, as in Python.
  \<^item> A Python \<^verbatim>\<open>str\<close> is a \<open>string\<close>; a \<open>char\<close> is the code point of the same
    number, so the strings covered are those of code points below 256.
\<close>

datatype py_error =
    ZeroDivisionError
  | OSError
  | CalledProcessError int "string list" string string
  | ValueError
  | TypeError
  | AttributeError
  | IndexError
  | KeyError
  | UnicodeDecodeError

text \<open>\<^verbatim>\<open>int(x)\<close> on a float truncates toward zero.\<close>

definition int_of_float :: "real \<Rightarrow> int" where
  "int_of_float x = (if 0 \<le> x then \<lfloor>x\<rfloor> else \<lceil>x\<rceil>)"

text \<open>\<^verbatim>\<open>str(n)\<close> on an integer: decimal digits, a minus sign when negative.\<close>

function str_nat :: "nat \<Rightarrow> string" where
  "str_nat n =
     (if n < 10 then [''0123456789'' ! n]
      else str_nat (n div 10) @ [''0123456789'' ! (n mod 10)])"
  by pat_completeness auto
termination
  by (relation "measure id") auto

declare str_nat.simps [simp del]

definition str_int :: "int \<Rightarrow> string" where
  "str_int i = (if i < 0 then CHR ''-'' # str_nat (nat (- i)) else str_nat (nat i))"

subsection \<open>Characters and strings\<close>

text \<open>
  \<^verbatim>\<open>str.isalnum\<close>, \<^verbatim>\<open>str.lower\<close> and \<^verbatim>\<open>str.isprintable\<close> on one character, as the Unicode
  tables give them for the code points 0 to 255. In that range lowering maps one character
  to one character (the upper-case letters are A-Z, U+00C0-U+00D6 and U+00D8-U+00DE, each 32
  below its lower-case form).
\<close>

definition isalnum :: "char \<Rightarrow> bool" where
  "isalnum c =
     (let n = (of_char c :: nat) in
        (48 \<le> n \<and> n \<le> 57) \<or> (65 \<le> n \<and> n \<le> 90) \<or> (97 \<le> n \<and> n \<le> 122) \<or>
        n = 170 \<or> n = 178 \<or> n = 179 \<or> n = 181 \<or> n = 185 \<or> n = 186 \<or>
        (188 \<le> n \<and> n \<le> 190) \<or> (192 \<le> n \<and> n \<le> 214) \<or>
        (216 \<le> n \<and> n \<le> 246) \<or> (248 \<le> n \<and> n \<le> 255))"

definition is_upper :: "char \<Rightarrow> bool" where
  "is_upper c =
     (let n = (of_char c :: nat) in
        (65 \<le> n \<and> n \<le> 90) \<or> (192 \<le> n \<and> n \<le> 214) \<or> (216 \<le> n \<and> n \<le> 222))"

definition lower_char :: "char \<Rightarrow> char" where
  "lower_char c = (if is_upper c then char_of ((of_char c :: nat) + 32) else c)"

definition lower :: "string \<Rightarrow> string" where
  "lower s = map lower_char s"

definition isprintable :: "char \<Rightarrow> bool" where
  "isprintable c =
     (let n = (of_char c :: nat) in
        (32 \<le> n \<and> n \<le> 126) \<or> (161 \<le> n \<and> n \<le> 172) \<or> (174 \<le> n \<and> n \<le> 255))"

text \<open>\<^verbatim>\<open>s.replace(a, b)\<close> for one-character \<^verbatim>\<open>a\<close> and \<^verbatim>\<open>b\<close>.\<close>

definition replace_char :: "char \<Rightarrow> char \<Rightarrow> string \<Rightarrow> string" where
  "replace_char a b s = map (\<lambda>c. if c = a then b else c) s"

text \<open>\<^verbatim>\<open>sep.join(xs)\<close>.\<close>

fun join_with :: "string \<Rightarrow> string list \<Rightarrow> string" where
  "join_with sep [] = []"
| "join_with sep [x] = x"
| "join_with sep (x # y # ys) = x @ sep @ join_with sep (y # ys)"

text \<open>\<^verbatim>\<open>s.split(c)\<close> for a one-character separator.\<close>

fun split_on :: "char \<Rightarrow> string \<Rightarrow> string list" where
  "split_on c [] = [[]]"
| "split_on c (x # xs) =
     (if x = c then [] # split_on c xs
      else (case split_on c xs of
              [] \<Rightarrow> [[x]]
            | y # ys \<Rightarrow> (x # y) # ys))"

text \<open>\<^verbatim>\<open>s.rfind(c)\<close>: the index of the last occurrence, -1 when there is none.\<close>

definition rfind :: "char \<Rightarrow> string \<Rightarrow> int" where
  "rfind c s =
     (if c \<in> set s then int (length s) - 1 - int (length (takeWhile (\<lambda>x. x \<noteq> c) (rev s)))
      else - 1)"

text \<open>
  \<^verbatim>\<open>repr(s)\<close> of a string: single quotes, unless the string holds a single quote and no
  double quote; backslash, the chosen quote, newline, carriage return and tab are escaped
  with a backslash, any other unprintable character as \<^verbatim>\<open>\xNN\<close>.
\<close>

definition hex_digit :: "nat \<Rightarrow> char" where
  "hex_digit n = ''0123456789abcdef'' ! (n mod 16)"

definition repr_char :: "char \<Rightarrow> char \<Rightarrow> string" where
  "repr_char quote c =
     (if c = CHR 0x5C then [CHR 0x5C, CHR 0x5C]
      else if c = quote then [CHR 0x5C, c]
      else if c = CHR 0x0A then [CHR 0x5C, CHR ''n'']
      else if c = CHR 0x0D then [CHR 0x5C, CHR ''r'']
      else if c = CHR 0x09 then [CHR 0x5C, CHR ''t'']
      else if isprintable c then [c]
      else [CHR 0x5C, CHR ''x'', hex_digit ((of_char c :: nat) div 16),
            hex_digit ((of_char c :: nat) mod 16)])"

definition repr_str :: "string \<Rightarrow> string" where
  "repr_str s =
     (let quote = (if CHR 0x27 \<in> set s \<and> CHR 0x22 \<notin> set s then CHR 0x22 else CHR 0x27)
      in [quote] @ concat (map (repr_char quote) s) @ [quote])"

text \<open>\<^verbatim>\<open>str(xs)\<close> of a list of strings.\<close>

definition str_list :: "string list \<Rightarrow> string" where
  "str_list xs = ''['' @ join_with '', '' (map repr_str xs) @ '']''"

subsection \<open>pathlib\<close>

text \<open>
  A \<^verbatim>\<open>Path\<close> is kept as its string. \<^verbatim>\<open>pathlib\<close> splits a POSIX path at the slashes and
  drops the empty and the \<^verbatim>\<open>.\<close> components; the name is the last component, and the suffix
  starts at the last dot of the name when that dot is neither its first nor its last
  character.
\<close>

definition path_root :: "string \<Rightarrow> string" where
  "path_root p =
     (if take 2 p = ''//'' \<and> take 3 p \<noteq> ''///'' then ''//''
      else if take 1 p = ''/'' then ''/''
      else [])"

definition path_parts :: "string \<Rightarrow> string list" where
  "path_parts p = filter (\<lambda>s. s \<noteq> [] \<and> s \<noteq> ''.'') (split_on CHR ''/'' p)"

definition path_name :: "string \<Rightarrow> string" where
  "path_name p = (case rev (path_parts p) of [] \<Rightarrow> [] | x # _ \<Rightarrow> x)"

definition path_suffix :: "string \<Rightarrow> string" where
  "path_suffix p =
     (let name = path_name p; i = rfind CHR ''.'' name
      in if 0 < i \<and> i < int (length name) - 1 then drop (nat i) name else [])"

definition path_stem :: "string \<Rightarrow> string" where
  "path_stem p =
     (let name = path_name p; i = rfind CHR ''.'' name
      in if 0 < i \<and> i < int (length name) - 1 then take (nat i) name else name)"

definition path_str :: "string \<Rightarrow> string list \<Rightarrow> string" where
  "path_str anchor parts =
     (if anchor = [] \<and> parts = [] then ''.'' else anchor @ join_with ''/'' parts)"

text \<open>\<^verbatim>\<open>str(Path(p) / q)\<close> for a relative \<^verbatim>\<open>q\<close>.\<close>

definition path_join :: "string \<Rightarrow> string \<Rightarrow> string" where
  "path_join p q = path_str (path_root p) (path_parts p @ path_parts q)"

section \<open>The leaf functions\<close>

subsection \<open>\<^verbatim>\<open>format_filename\<close>\<close>

definition format_filename :: "string \<Rightarrow> string" where
  "format_filename filename =
     (let formatted = lower filename;
          formatted = replace_char CHR '' '' CHR ''-'' formatted
      in filter (\<lambda>c. isalnum c \<or> c \<in> set ''-_'') formatted)"

text \<open>
  The name under which \<^verbatim>\<open>process_video\<close> writes an asset's outputs (its lines
  \<^verbatim>\<open>input_path = Path(input_file)\<close> and \<^verbatim>\<open>filename = format_filename(input_path.stem)\<close>).
\<close>

definition output_filename :: "string \<Rightarrow> string" where
  "output_filename input_file = format_filename (path_stem input_file)"

subsection \<open>\<^verbatim>\<open>get_supported_formats\<close>\<close>

definition get_supported_formats :: "string list" where
  "get_supported_formats = [''.mp4'', ''.mov'', ''.m4v'', ''.avi'', ''.mkv'', ''.webm'']"

subsection \<open>\<^verbatim>\<open>calculate_target_bitrate\<close>\<close>

text \<open>
  The local \<^verbatim>\<open>target_size_mb\<close> is a function of the duration. The division
  \<^verbatim>\<open>target_size_bits / duration_seconds\<close> raises \<^verbatim>\<open>ZeroDivisionError\<close> when the duration is
  zero; nothing in the function guards it.
\<close>

definition target_size_mb :: "real \<Rightarrow> real" where
  "target_size_mb duration_seconds = min 12 (duration_seconds * 0.2)"

definition calculate_target_bitrate :: "real \<Rightarrow> py_error + int" where
  "calculate_target_bitrate duration_seconds =
     (let base_bitrate = 3000000;
          target_size_bits = target_size_mb duration_seconds * 8 * 1024 * 1024
      in if duration_seconds = 0 then Inl ZeroDivisionError
         else Inr (min (int_of_float (target_size_bits / duration_seconds)) base_bitrate))"

subsection \<open>\<^verbatim>\<open>get_video_size_mb\<close>\<close>

text \<open>
  \<^verbatim>\<open>os.path.getsize\<close> answers with the size in bytes, or raises \<^verbatim>\<open>OSError\<close> when the file
  cannot be read; its answer at one call is an argument here (\<open>None\<close> for the error).
\<close>

definition get_video_size_mb :: "nat option \<Rightarrow> py_error + real" where
  "get_video_size_mb getsize =
     (case getsize of
        None \<Rightarrow> Inl OSError
      | Some bytes \<Rightarrow> Inr (real bytes / (1024 * 1024)))"

section \<open>The world outside the program\<close>

text \<open>
  The program talks to the probing tool, the encoder and the file system. What they answer
  to one call of \<^verbatim>\<open>process_video\<close> is a record: one field per call site of the source,
  in the order the calls are made. An answer that depends on the command is a function of
  the command.
\<close>

datatype json =
    JNull
  | JBool bool
  | JInt int
  | JFloat real
  | JStr string
  | JList "json list"
  | JDict "(string \<times> json) list"

text \<open>What \<^verbatim>\<open>subprocess.run\<close> returns.\<close>

record completed =
  returncode :: int
  stdout :: string
  stderr :: string

record env =
  cpu_count :: int
  \<comment> \<open>\<^verbatim>\<open>Path.mkdir(parents=True, exist_ok=True)\<close> on a directory: False when it raises\<close>
  mkdir_ok :: "string \<Rightarrow> bool"
  \<comment> \<open>\<^verbatim>\<open>subprocess.check_output(cmd).decode()\<close>\<close>
  check_output :: "string list \<Rightarrow> py_error + string"
  \<comment> \<open>\<^verbatim>\<open>json.loads\<close>, and the parsers behind \<^verbatim>\<open>int(s)\<close> and \<^verbatim>\<open>float(s)\<close> on a string\<close>
  json_loads :: "string \<Rightarrow> py_error + json"
  int_of_str :: "string \<Rightarrow> int option"
  float_of_str :: "string \<Rightarrow> real option"
  \<comment> \<open>\<^verbatim>\<open>os.path.getsize(input_file)\<close>\<close>
  input_bytes :: "nat option"
  \<comment> \<open>the MP4 pass: \<open>Inl\<close> the exception \<^verbatim>\<open>subprocess.run\<close> itself raises\<close>
  mp4_run :: "string list \<Rightarrow> py_error + completed"
  mp4_exists :: bool
  \<comment> \<open>the first WebM pass, and the sizes of both outputs after it\<close>
  webm_run :: "string list \<Rightarrow> py_error + completed"
  mp4_bytes :: "nat option"
  webm_bytes :: "nat option"
  \<comment> \<open>the WebM retry, and the size of its output\<close>
  webm_retry_run :: "string list \<Rightarrow> py_error + completed"
  webm_retry_bytes :: "nat option"
  \<comment> \<open>the name of \<^verbatim>\<open>signal.Signals(n)\<close>, \<open>None\<close> when \<^verbatim>\<open>n\<close> is no signal of the host\<close>
  signal_name :: "int \<Rightarrow> string option"

subsection \<open>\<^verbatim>\<open>get_video_info\<close>\<close>

record video_info =
  width :: int
  height :: int
  duration :: real

text \<open>\<^verbatim>\<open>d.get(key, default)\<close>: only a dict has the method.\<close>

definition dict_get :: "json \<Rightarrow> string \<Rightarrow> json \<Rightarrow> py_error + json" where
  "dict_get d key dflt =
     (case d of
        JDict items \<Rightarrow> (case map_of items key of None \<Rightarrow> Inr dflt | Some v \<Rightarrow> Inr v)
      | _ \<Rightarrow> Inl AttributeError)"

text \<open>\<^verbatim>\<open>x[0]\<close>.\<close>

definition subscript0 :: "json \<Rightarrow> py_error + json" where
  "subscript0 x =
     (case x of
        JList [] \<Rightarrow> Inl IndexError
      | JList (y # _) \<Rightarrow> Inr y
      | JStr [] \<Rightarrow> Inl IndexError
      | JStr (c # _) \<Rightarrow> Inr (JStr [c])
      | JDict _ \<Rightarrow> Inl KeyError
      | _ \<Rightarrow> Inl TypeError)"

text \<open>\<^verbatim>\<open>int(x)\<close> and \<^verbatim>\<open>float(x)\<close> on a value that came out of \<^verbatim>\<open>json.loads\<close>.\<close>

definition py_int :: "env \<Rightarrow> json \<Rightarrow> py_error + int" where
  "py_int e x =
     (case x of
        JInt n \<Rightarrow> Inr n
      | JFloat r \<Rightarrow> Inr (int_of_float r)
      | JBool b \<Rightarrow> Inr (if b then 1 else 0)
      | JStr s \<Rightarrow> (case int_of_str e s of None \<Rightarrow> Inl ValueError | Some n \<Rightarrow> Inr n)
      | _ \<Rightarrow> Inl TypeError)"

definition py_float :: "env \<Rightarrow> json \<Rightarrow> py_error + real" where
  "py_float e x =
     (case x of
        JInt n \<Rightarrow> Inr (real_of_int n)
      | JFloat r \<Rightarrow> Inr r
      | JBool b \<Rightarrow> Inr (if b then 1 else 0)
      | JStr s \<Rightarrow> (case float_of_str e s of None \<Rightarrow> Inl ValueError | Some r \<Rightarrow> Inr r)
      | _ \<Rightarrow> Inl TypeError)"

definition ffprobe_cmd :: "string \<Rightarrow> string list" where
  "ffprobe_cmd input_file =
     [''ffprobe'', ''-v'', ''error'', ''-select_streams'', ''v:0'',
      ''-show_entries'', ''stream=width,height,duration'', ''-of'', ''json'', input_file]"

text \<open>
  Sequencing: the statement after a call runs only when the call returned; an exception
  skips the rest of the block.
\<close>

definition and_then :: "py_error + 'a \<Rightarrow> ('a \<Rightarrow> py_error + 'b) \<Rightarrow> py_error + 'b" where
  "and_then m f = (case m of Inl err \<Rightarrow> Inl err | Inr x \<Rightarrow> f x)"

text \<open>The body of the \<^verbatim>\<open>try\<close>: whatever it raises is the \<open>Inl\<close>.\<close>

definition get_video_info_try :: "env \<Rightarrow> string \<Rightarrow> py_error + video_info" where
  "get_video_info_try e input_file =
     and_then (check_output e (ffprobe_cmd input_file)) (\<lambda>output.
     and_then (json_loads e output) (\<lambda>info.
     and_then (dict_get info ''streams'' (JList [JDict []])) (\<lambda>streams.
     and_then (subscript0 streams) (\<lambda>stream_info.
     and_then (dict_get stream_info ''width'' (JInt 0)) (\<lambda>w.
     and_then (py_int e w) (\<lambda>w'.
     and_then (dict_get stream_info ''height'' (JInt 0)) (\<lambda>h.
     and_then (py_int e h) (\<lambda>h'.
     and_then (dict_get stream_info ''duration'' (JInt 0)) (\<lambda>d.
     and_then (py_float e d) (\<lambda>d'.
     Inr \<lparr>width = w', height = h', duration = d'\<rparr>))))))))))"

text \<open>The bare \<^verbatim>\<open>except:\<close> turns every exception of the body into \<^verbatim>\<open>None\<close>.\<close>

definition get_video_info :: "env \<Rightarrow> string \<Rightarrow> video_info option" where
  "get_video_info e input_file =
     (case get_video_info_try e input_file of
        Inl err \<Rightarrow> None
      | Inr info \<Rightarrow> Some info)"

section \<open>The transcode pipeline\<close>

subsection \<open>Results and commands\<close>

text \<open>
  The dictionary \<^verbatim>\<open>process_video\<close> returns: with \<^verbatim>\<open>'success': True\<close> the fields
  \<^verbatim>\<open>filename\<close>, \<^verbatim>\<open>original_size\<close>, \<^verbatim>\<open>mp4_size\<close>, \<^verbatim>\<open>webm_size\<close> and \<^verbatim>\<open>duration\<close>; with
  \<^verbatim>\<open>'success': False\<close> the fields \<^verbatim>\<open>filename\<close> and \<^verbatim>\<open>error\<close>. A bare \<^verbatim>\<open>return\<close>, and the
  end of the function body, return \<^verbatim>\<open>None\<close>: the result is a \<open>transcode_result option\<close>.
\<close>

datatype transcode_result =
    Success string real real real real
  | Failure string string

text \<open>
  \<^verbatim>\<open>str(e)\<close> of a \<^verbatim>\<open>CalledProcessError\<close>, as the standard library formats it from the
  command and the exit status.
\<close>

definition str_CalledProcessError :: "env \<Rightarrow> int \<Rightarrow> string list \<Rightarrow> string" where
  "str_CalledProcessError e rc cmd =
     (let command = ''Command '' @ [CHR 0x27] @ str_list cmd @ [CHR 0x27]
      in if rc < 0 then
           (case signal_name e (- rc) of
              Some name \<Rightarrow>
                command @ '' died with <Signals.'' @ name @ '': '' @ str_int (- rc) @ ''>.''
            | None \<Rightarrow> command @ '' died with unknown signal '' @ str_int (- rc) @ ''.'')
         else command @ '' returned non-zero exit status '' @ str_int rc @ ''.'')"

definition scale_filter :: string where
  "scale_filter = ''scale=1080:1920:force_original_aspect_ratio=increase,crop=1080:1920''"

definition mp4_cmd :: "string \<Rightarrow> int \<Rightarrow> int \<Rightarrow> string \<Rightarrow> string list" where
  "mp4_cmd input_file ffmpeg_threads target_bitrate mp4_output =
     [''ffmpeg'', ''-y'',
      ''-i'', input_file,
      ''-threads'', str_int ffmpeg_threads,
      ''-vf'', scale_filter @ '',format=yuv420p'',
      ''-c:v'', ''libx264'',
      ''-crf'', ''20'',
      ''-preset'', ''medium'',
      ''-profile:v'', ''main'',
      ''-level'', ''4.0'',
      ''-maxrate'', str_int target_bitrate,
      ''-bufsize'', str_int (target_bitrate * 2),
      ''-movflags'', ''+faststart'',
      ''-color_primaries'', ''bt709'',
      ''-color_trc'', ''bt709'',
      ''-colorspace'', ''bt709'',
      ''-c:a'', ''aac'',
      ''-b:a'', ''128k'',
      ''-ar'', ''48000'',
      mp4_output]"

text \<open>
  The two WebM command lists of the source are the same list but for the three rates:
  \<^verbatim>\<open>-b:v\<close>, \<^verbatim>\<open>-minrate\<close> and \<^verbatim>\<open>-maxrate\<close>.
\<close>

definition vp9_cmd :: "string \<Rightarrow> int \<Rightarrow> int \<Rightarrow> int \<Rightarrow> int \<Rightarrow> string \<Rightarrow> string list" where
  "vp9_cmd mp4_output ffmpeg_threads b_v minrate maxrate webm_output =
     [''ffmpeg'', ''-y'',
      ''-i'', mp4_output,
      ''-threads'', str_int ffmpeg_threads,
      ''-c:v'', ''libvpx-vp9'',
      ''-b:v'', str_int b_v,
      ''-minrate'', str_int minrate,
      ''-maxrate'', str_int maxrate,
      ''-tile-columns'', ''2'',
      ''-frame-parallel'', ''1'',
      ''-speed'', ''1'',
      ''-auto-alt-ref'', ''1'',
      ''-lag-in-frames'', ''25'',
      ''-g'', ''240'',
      ''-pix_fmt'', ''yuv420p'',
      ''-c:a'', ''libopus'',
      ''-b:a'', ''96k'',
      webm_output]"

definition webm_cmd :: "string \<Rightarrow> int \<Rightarrow> int \<Rightarrow> string \<Rightarrow> string list" where
  "webm_cmd mp4_output ffmpeg_threads target_bitrate webm_output =
     vp9_cmd mp4_output ffmpeg_threads
       (int_of_float (real_of_int target_bitrate * 0.9))
       (int_of_float (real_of_int target_bitrate * 0.6))
       target_bitrate
       webm_output"

definition webm_retry_cmd :: "string \<Rightarrow> int \<Rightarrow> int \<Rightarrow> string \<Rightarrow> string list" where
  "webm_retry_cmd mp4_output ffmpeg_threads target_bitrate webm_output =
     vp9_cmd mp4_output ffmpeg_threads
       (int_of_float (real_of_int target_bitrate * 0.7))
       (int_of_float (real_of_int target_bitrate * 0.4))
       (int_of_float (real_of_int target_bitrate * 0.8))
       webm_output"

text \<open>
  One encoder call: \<^verbatim>\<open>subprocess.run\<close> may raise by itself (\<^verbatim>\<open>OSError\<close> when the program
  cannot be started, \<^verbatim>\<open>UnicodeDecodeError\<close> when its output is no text); a non-zero exit
  status raises \<^verbatim>\<open>CalledProcessError\<close> (by the source's own \<^verbatim>\<open>raise\<close> after the first two
  calls, by \<^verbatim>\<open>check=True\<close> at the third).
\<close>

definition run_checked :: "py_error + completed \<Rightarrow> string list \<Rightarrow> py_error + completed" where
  "run_checked answer cmd =
     (case answer of
        Inl err \<Rightarrow> Inl err
      | Inr result \<Rightarrow>
          if returncode result \<noteq> 0
          then Inl (CalledProcessError (returncode result) cmd (stdout result) (stderr result))
          else Inr result)"

subsection \<open>\<^verbatim>\<open>process_video\<close>\<close>

text \<open>
  A run of \<^verbatim>\<open>process_video\<close> gives what the call returns or raises, and the list of the
  encoder commands it ran, in order.
\<close>

type_synonym run = "(py_error + transcode_result option) \<times> string list list"

text \<open>A call that may raise, after the commands \<open>cmds\<close> have run.\<close>

definition or_raise :: "py_error + 'a \<Rightarrow> string list list \<Rightarrow> ('a \<Rightarrow> run) \<Rightarrow> run" where
  "or_raise m cmds f = (case m of Inl err \<Rightarrow> (Inl err, cmds) | Inr x \<Rightarrow> f x)"

text \<open>
  The body of the \<^verbatim>\<open>try\<close>. The report printed after the first WebM pass divides by
  \<^verbatim>\<open>file_size_mb\<close>, which raises \<^verbatim>\<open>ZeroDivisionError\<close> for an empty input file. When the MP4
  file does not exist after its pass the body ends without a \<^verbatim>\<open>return\<close>.
\<close>

definition process_video_try ::
  "env \<Rightarrow> string \<Rightarrow> string \<Rightarrow> string \<Rightarrow> string \<Rightarrow> real \<Rightarrow> real \<Rightarrow> int \<Rightarrow> int \<Rightarrow> run" where
  "process_video_try e input_file filename mp4_output webm_output file_size_mb duration_sec
       target_bitrate ffmpeg_threads =
     (let c1 = mp4_cmd input_file ffmpeg_threads target_bitrate mp4_output;
          c2 = webm_cmd mp4_output ffmpeg_threads target_bitrate webm_output;
          c3 = webm_retry_cmd mp4_output ffmpeg_threads target_bitrate webm_output
      in or_raise (run_checked (mp4_run e c1) c1) [c1] (\<lambda>result.
         if mp4_exists e then
           or_raise (run_checked (webm_run e c2) c2) [c1, c2] (\<lambda>result.
           or_raise (get_video_size_mb (mp4_bytes e)) [c1, c2] (\<lambda>mp4_size.
           or_raise (get_video_size_mb (webm_bytes e)) [c1, c2] (\<lambda>webm_size.
           if file_size_mb = 0 then (Inl ZeroDivisionError, [c1, c2])
           else if webm_size > mp4_size then
             or_raise (run_checked (webm_retry_run e c3) c3) [c1, c2, c3] (\<lambda>result.
             or_raise (get_video_size_mb (webm_retry_bytes e)) [c1, c2, c3] (\<lambda>webm_size.
             (Inr (Some (Success filename file_size_mb mp4_size webm_size duration_sec)),
              [c1, c2, c3])))
           else
             (Inr (Some (Success filename file_size_mb mp4_size webm_size duration_sec)),
              [c1, c2]))))
         else (Inr None, [c1])))"

text \<open>
  The handler \<^verbatim>\<open>except subprocess.CalledProcessError as e\<close>: it returns the failure
  dictionary, whose \<^verbatim>\<open>error\<close> is \<^verbatim>\<open>str(e)\<close>; every other exception passes through.
\<close>

fun except_CalledProcessError :: "env \<Rightarrow> string \<Rightarrow> run \<Rightarrow> run" where
  "except_CalledProcessError e filename (Inl (CalledProcessError rc cmd out err), cmds) =
     (Inr (Some (Failure filename (str_CalledProcessError e rc cmd))), cmds)"
| "except_CalledProcessError e filename r = r"


text \<open>
  The locals \<^verbatim>\<open>mp4_output\<close>, \<^verbatim>\<open>webm_output\<close> and \<^verbatim>\<open>ffmpeg_threads\<close> of the source,
  as functions of what they are computed from.
\<close>

definition mp4_output_path :: "string \<Rightarrow> string \<Rightarrow> string" where
  "mp4_output_path output_dir filename =
     path_join (path_join output_dir ''mp4'') (filename @ ''.mp4'')"

definition webm_output_path :: "string \<Rightarrow> string \<Rightarrow> string" where
  "webm_output_path output_dir filename =
     path_join (path_join output_dir ''webm'') (filename @ ''.webm'')"

definition ffmpeg_threads_of :: "env \<Rightarrow> int" where
  "ffmpeg_threads_of e = max 1 (cpu_count e div 2)"

definition process_video :: "env \<Rightarrow> string \<times> string \<Rightarrow> run" where
  "process_video e args =
     (let input_file = fst args; output_dir = snd args;
          filename = format_filename (path_stem input_file);
          mp4_output_dir = path_join output_dir ''mp4'';
          webm_output_dir = path_join output_dir ''webm''
      in if mkdir_ok e mp4_output_dir \<and> mkdir_ok e webm_output_dir then
           (let mp4_output = mp4_output_path output_dir filename;
                webm_output = webm_output_path output_dir filename
            in case get_video_info e input_file of
                 None \<Rightarrow> (Inr None, [])
               | Some video_info \<Rightarrow>
                   or_raise (get_video_size_mb (input_bytes e)) [] (\<lambda>file_size_mb.
                   or_raise (calculate_target_bitrate (duration video_info)) []
                     (\<lambda>target_bitrate.
                   except_CalledProcessError e filename
                     (process_video_try e input_file filename mp4_output webm_output
                        file_size_mb (duration video_info) target_bitrate
                        (ffmpeg_threads_of e)))))
         else (Inl OSError, []))"

text \<open>
  The encoder calls of a run that are WebM passes: the eighth word of a WebM command, the
  value of its \<^verbatim>\<open>-c:v\<close>, is the VP9 codec (the eighth word of the MP4 command is its
  filter).
\<close>

definition is_webm_call :: "string list \<Rightarrow> bool" where
  "is_webm_call cmd = (7 < length cmd \<and> cmd ! 7 = ''libvpx-vp9'')"

definition webm_calls :: "run \<Rightarrow> nat" where
  "webm_calls r = length (filter is_webm_call (snd r))"

section \<open>The batch\<close>

text \<open>
  \<^verbatim>\<open>batch_process_videos\<close> prints its report and returns nothing. The model returns the
  report: the two lists the source builds and the three totals. The pool runs
  \<^verbatim>\<open>process_video\<close> once per supported file; \<^verbatim>\<open>list(executor.map(...))\<close> gives the results
  in the order of the files, and raises the first exception a call raised. Each asset has
  its own \<open>env\<close>: the calls share nothing but the file system.
\<close>

record batch_env =
  \<comment> \<open>\<^verbatim>\<open>list(Path(input_dir).glob("*"))\<close>, each path as its string\<close>
  glob :: "string \<Rightarrow> string list"
  asset_env :: "string \<Rightarrow> env"

record summary =
  successful :: "transcode_result list"
  failed :: "transcode_result list"
  totals :: "(real \<times> real \<times> real) option"

definition max_workers :: "int \<Rightarrow> int" where
  "max_workers host_cpu_count = max 1 (host_cpu_count - 1)"

fun collect :: "(py_error + 'a) list \<Rightarrow> py_error + 'a list" where
  "collect [] = Inr []"
| "collect (Inl err # rs) = Inl err"
| "collect (Inr x # rs) = and_then (collect rs) (\<lambda>xs. Inr (x # xs))"

text \<open>
  \<^verbatim>\<open>r and r.get('success', False)\<close> and \<^verbatim>\<open>r and not r.get('success', False)\<close>: \<^verbatim>\<open>None\<close>
  passes neither test.
\<close>

fun is_successful :: "transcode_result option \<Rightarrow> bool" where
  "is_successful (Some (Success f orig m w d)) = True"
| "is_successful r = False"

fun is_failed :: "transcode_result option \<Rightarrow> bool" where
  "is_failed (Some (Failure f err)) = True"
| "is_failed r = False"

fun original_size :: "transcode_result \<Rightarrow> real" where
  "original_size (Success f orig m w d) = orig"
| "original_size (Failure f err) = 0"

fun mp4_size :: "transcode_result \<Rightarrow> real" where
  "mp4_size (Success f orig m w d) = m"
| "mp4_size (Failure f err) = 0"

fun webm_size :: "transcode_result \<Rightarrow> real" where
  "webm_size (Success f orig m w d) = w"
| "webm_size (Failure f err) = 0"

text \<open>The closing report; its ratios divide by the total original size.\<close>

definition summarize :: "transcode_result option list \<Rightarrow> py_error + summary" where
  "summarize results =
     (let succ = map the (filter is_successful results);
          fails = map the (filter is_failed results)
      in if succ = [] then Inr \<lparr>successful = succ, failed = fails, totals = None\<rparr>
         else
           (let total_original = sum_list (map original_size succ);
                total_mp4 = sum_list (map mp4_size succ);
                total_webm = sum_list (map webm_size succ)
            in if total_original = 0 then Inl ZeroDivisionError
               else Inr \<lparr>successful = succ, failed = fails,
                         totals = Some (total_original, total_mp4, total_webm)\<rparr>))"

definition video_files :: "batch_env \<Rightarrow> string \<Rightarrow> string list" where
  "video_files b input_dir =
     filter (\<lambda>f. lower (path_suffix f) \<in> set get_supported_formats) (glob b input_dir)"

definition batch_process_videos :: "batch_env \<Rightarrow> string \<Rightarrow> string \<Rightarrow> py_error + summary option" where
  "batch_process_videos b input_dir output_dir =
     (let files = video_files b input_dir
      in if files = [] then Inr None
         else
           and_then
             (collect (map (\<lambda>f. fst (process_video (asset_env b f) (f, output_dir))) files))
             (\<lambda>results. and_then (summarize results) (\<lambda>s. Inr (Some s))))"

section \<open>Example worlds\<close>

text \<open>
  Concrete worlds on which the properties below are evaluated. In \<open>env_ok\<close> every tool
  succeeds: a 30 second clip of 50 MiB, an MP4 of 6 MiB, a WebM of 5 MiB. The others change
  one answer each.
\<close>

definition probe_json :: json where
  "probe_json =
     JDict [(''streams'',
       JList [JDict [(''width'', JInt 1920), (''height'', JInt 1080),
                     (''duration'', JStr ''30.000000'')]])]"

definition exit_ok :: completed where
  "exit_ok = \<lparr>returncode = 0, stdout = [], stderr = []\<rparr>"

definition exit_boom :: completed where
  "exit_boom = \<lparr>returncode = 1, stdout = [], stderr = ''boom''\<rparr>"

definition env_ok :: env where
  "env_ok =
     \<lparr>cpu_count = 8,
      mkdir_ok = (\<lambda>d. True),
      check_output = (\<lambda>cmd. Inr ''{}''),
      json_loads = (\<lambda>s. Inr probe_json),
      int_of_str = (\<lambda>s. None),
      float_of_str = (\<lambda>s. if s = ''30.000000'' then Some 30 else None),
      input_bytes = Some 52428800,
      mp4_run = (\<lambda>cmd. Inr exit_ok),
      mp4_exists = True,
      webm_run = (\<lambda>cmd. Inr exit_ok),
      mp4_bytes = Some 6291456,
      webm_bytes = Some 5242880,
      webm_retry_run = (\<lambda>cmd. Inr exit_ok),
      webm_retry_bytes = Some 7340032,
      signal_name = (\<lambda>n. None)\<rparr>"

text \<open>The probing tool exits with a non-zero status.\<close>

definition env_no_probe :: env where
  "env_no_probe = env_ok\<lparr>check_output := (\<lambda>cmd. Inl (CalledProcessError 1 cmd [] []))\<rparr>"

text \<open>The probe output has no \<^verbatim>\<open>duration\<close> field.\<close>

definition env_no_duration :: env where
  "env_no_duration =
     env_ok\<lparr>json_loads := (\<lambda>s. Inr (JDict [(''streams'',
       JList [JDict [(''width'', JInt 1920), (''height'', JInt 1080)]])]))\<rparr>"

text \<open>The encoder cannot be started.\<close>

definition env_no_ffmpeg :: env where
  "env_no_ffmpeg = env_ok\<lparr>mp4_run := (\<lambda>cmd. Inl OSError)\<rparr>"

text \<open>The MP4 pass exits with status 1 and the diagnostic \<^verbatim>\<open>boom\<close>.\<close>

definition env_mp4_fails :: env where
  "env_mp4_fails = env_ok\<lparr>mp4_run := (\<lambda>cmd. Inr exit_boom)\<rparr>"

text \<open>The first WebM is 8 MiB, larger than the MP4; the retry gives 7 MiB, still larger.\<close>

definition env_big_webm :: env where
  "env_big_webm = env_ok\<lparr>webm_bytes := Some 8388608\<rparr>"



text \<open>\<open>occurs_in p s\<close>: the string \<open>p\<close> is a substring of \<open>s\<close>.\<close>

fun starts_with :: "string \<Rightarrow> string \<Rightarrow> bool" where
  "starts_with s [] = True"
| "starts_with [] (p # ps) = False"
| "starts_with (x # xs) (p # ps) = (x = p \<and> starts_with xs ps)"

fun occurs_in :: "string \<Rightarrow> string \<Rightarrow> bool" where
  "occurs_in p [] = (p = [])"
| "occurs_in p (x # xs) = (starts_with (x # xs) p \<or> occurs_in p xs)"

section \<open>Properties of the bitrate planner\<close>

lemma target_size_mb_low: "d \<le> 60 \<Longrightarrow> target_size_mb d = d * 0.2"
  by (simp add: target_size_mb_def)


lemma bitrate_low: "0 < d \<Longrightarrow> d \<le> 60 \<Longrightarrow> calculate_target_bitrate d = Inr 1677721"
proof -
  assume d: "0 < d" "d \<le> 60"
  have q: "d * 0.2 * 8 * 1024 * 1024 / d = 8388608 / 5"
    using d by simp
  have f: "\<lfloor>8388608 / 5 :: real\<rfloor> = 1677721"
    by simp
  show ?thesis
    using d unfolding calculate_target_bitrate_def Let_def target_size_mb_low [OF d(2)] q
      int_of_float_def
    by (simp add: f)
qed













section \<open>Properties of the file name normalization\<close>

lemma lower_char_idem: "lower_char (lower_char c) = lower_char c"
  unfolding lower_char_def is_upper_def Let_def
  by (auto simp: of_char_of)

lemma not_kept_space: "\<not> (isalnum CHR '' '' \<or> CHR '' '' \<in> set ''-_'')"
  by (simp add: isalnum_def)

lemma lower_char_hyphen: "lower_char CHR ''-'' = CHR ''-''"
  by (simp add: lower_char_def is_upper_def)

lemma format_filename_chars:
  assumes "c \<in> set (format_filename x)"
  shows "lower_char c = c \<and> c \<noteq> CHR '' '' \<and> (isalnum c \<or> c \<in> set ''-_'')"
proof -
  from assms have k: "isalnum c \<or> c \<in> set ''-_''"
    by (auto simp: format_filename_def Let_def)
  then have ns: "c \<noteq> CHR '' ''"
    using not_kept_space by auto
  from assms have "c \<in> (\<lambda>y. if lower_char y = CHR '' '' then CHR ''-'' else lower_char y) ` set x"
    by (auto simp: format_filename_def Let_def lower_def replace_char_def)
  then obtain y where y: "c = (if lower_char y = CHR '' '' then CHR ''-'' else lower_char y)"
    by blast
  have "lower_char c = c"
    using y lower_char_idem lower_char_hyphen by (auto split: if_splits)
  then show ?thesis
    using k ns by simp
qed

lemma format_filename_twice: "format_filename (format_filename x) = format_filename x"
proof -
  let ?r = "format_filename x"
  have l: "lower ?r = ?r"
    unfolding lower_def using format_filename_chars by (intro map_idI) blast
  have r: "replace_char CHR '' '' CHR ''-'' ?r = ?r"
    unfolding replace_char_def using format_filename_chars by (intro map_idI) auto
  have f: "filter (\<lambda>c. isalnum c \<or> c \<in> set ''-_'') ?r = ?r"
    using format_filename_chars by (intro filter_True) blast
  have "format_filename ?r = filter (\<lambda>c. isalnum c \<or> c \<in> set ''-_'')
      (replace_char CHR '' '' CHR ''-'' (lower ?r))"
    by (simp only: format_filename_def Let_def)
  also have "\<dots> = filter (\<lambda>c. isalnum c \<or> c \<in> set ''-_'') ?r"
    by (simp only: l r)
  also have "\<dots> = ?r"
    by (rule f)
  finally show ?thesis .
qed

lemma split_on_absent: "c \<notin> set s \<Longrightarrow> split_on c s = [s]"
  by (induction s) auto

lemma format_filename_no_sep:
  "CHR ''/'' \<notin> set (format_filename x) \<and> CHR ''.'' \<notin> set (format_filename x)"
  using format_filename_chars [of "CHR ''/''" x] format_filename_chars [of "CHR ''.''" x]
  by (auto simp: isalnum_def)

lemma path_stem_plain:
  assumes "CHR ''/'' \<notin> set s" "CHR ''.'' \<notin> set s"
  shows "path_stem s = s"
proof (cases "s = []")
  case True
  then show ?thesis
    by (simp add: path_stem_def path_name_def path_parts_def rfind_def)
next
  case False
  have "s \<noteq> ''.''"
    using assms(2) by auto
  then have "path_name s = s"
    using False assms(1) by (simp add: path_name_def path_parts_def split_on_absent)
  then show ?thesis
    using assms(2) by (simp add: path_stem_def rfind_def)
qed

lemma output_filename_twice: "output_filename (output_filename x) = output_filename x"
  unfolding output_filename_def
  using format_filename_no_sep [of "path_stem x"]
  by (simp add: path_stem_plain format_filename_twice)

text \<open>
  C7. Normalizing a file name twice gives what normalizing it once gives, for
  \<^verbatim>\<open>format_filename\<close> itself and for the normalization the pipeline applies to an input path
  (\<^verbatim>\<open>format_filename\<close> of the path's stem); the pipeline's name for \<^verbatim>\<open>My Clip 01.MOV\<close> is
  \<^verbatim>\<open>my-clip-01\<close>.
\<close>

theorem format_filename_idempotent:
  "format_filename (format_filename x) = format_filename x \<and>
   output_filename (output_filename y) = output_filename y \<and>
   output_filename ''My Clip 01.MOV'' = ''my-clip-01''"
proof -
  have "output_filename ''My Clip 01.MOV'' = ''my-clip-01''"
    by code_simp
  then show ?thesis
    by (simp add: format_filename_twice output_filename_twice)
qed

text \<open>
  \<^verbatim>\<open>format_filename\<close> alone does not remove an extension: the dot goes, the letters stay.
\<close>

lemma format_filename_keeps_extension: "format_filename ''My Clip 01.MOV'' = ''my-clip-01mov''"
  by code_simp

theorem format_filename_idempotent_witness:
  "format_filename (format_filename ''My Clip 01.MOV'') = ''my-clip-01mov'' \<and>
   output_filename (output_filename ''in/My Clip 01.MOV'') = ''my-clip-01''"
proof -
  have a: "format_filename ''My Clip 01.MOV'' = ''my-clip-01mov''"
    by code_simp
  have b: "output_filename ''in/My Clip 01.MOV'' = ''my-clip-01''"
    by code_simp
  show ?thesis
    using format_filename_idempotent [of "''My Clip 01.MOV''" "''in/My Clip 01.MOV''"] a b
    by simp
qed

section \<open>Properties of the pipeline\<close>

subsection \<open>\<^verbatim>\<open>process_video\<close>, stage by stage\<close>



lemma run_zero_duration:
  assumes "mkdir_ok e (path_join out ''mp4'')" "mkdir_ok e (path_join out ''webm'')"
    and "get_video_info e f = Some info" "input_bytes e = Some n" "duration info = 0"
  shows "process_video e (f, out) = (Inl ZeroDivisionError, [])"
  using assms
  by (simp add: process_video_def Let_def or_raise_def get_video_size_mb_def
      calculate_target_bitrate_def)

lemma process_video_planned:
  assumes "mkdir_ok e (path_join out ''mp4'')" "mkdir_ok e (path_join out ''webm'')"
    and "get_video_info e f = Some info" "input_bytes e = Some n"
    and "calculate_target_bitrate (duration info) = Inr tb"
  shows "process_video e (f, out) =
     except_CalledProcessError e (output_filename f)
       (process_video_try e f (output_filename f)
          (mp4_output_path out (output_filename f)) (webm_output_path out (output_filename f))
          (real n / (1024 * 1024)) (duration info) tb (ffmpeg_threads_of e))"
  using assms
  by (simp add: process_video_def Let_def or_raise_def get_video_size_mb_def
      output_filename_def)






lemma process_video_try_mp4_nonzero:
  assumes "mp4_run e (mp4_cmd f th tb mo) = Inr r" "returncode r \<noteq> 0"
  shows "process_video_try e f fn mo wo sz d tb th =
     (Inl (CalledProcessError (returncode r) (mp4_cmd f th tb mo) (stdout r) (stderr r)),
      [mp4_cmd f th tb mo])"
  using assms by (simp add: process_video_try_def Let_def or_raise_def run_checked_def)





lemma is_webm_call_mp4_cmd: "\<not> is_webm_call (mp4_cmd f th tb mo)"
  by (simp add: is_webm_call_def mp4_cmd_def scale_filter_def)

lemma is_webm_call_vp9_cmd: "is_webm_call (vp9_cmd mo th b lo hi wo)"
  by (simp add: is_webm_call_def vp9_cmd_def)

lemma is_webm_call_webm_cmd: "is_webm_call (webm_cmd mo th tb wo)"
  by (simp add: webm_cmd_def is_webm_call_vp9_cmd)

lemma is_webm_call_webm_retry_cmd: "is_webm_call (webm_retry_cmd mo th tb wo)"
  by (simp add: webm_retry_cmd_def is_webm_call_vp9_cmd)

lemmas is_webm_call_simps =
  is_webm_call_mp4_cmd is_webm_call_webm_cmd is_webm_call_webm_retry_cmd



subsection \<open>The batch\<close>

lemma collect_Inl: "Inl err \<in> set rs \<Longrightarrow> \<exists>err'. collect rs = Inl err'"
proof (induction rs)
  case Nil
  then show ?case by simp
next
  case (Cons r rs)
  then show ?case
    by (cases r) (auto simp: and_then_def)
qed


lemma batch_aborts:
  assumes "f \<in> set (video_files b d)"
    and "fst (process_video (asset_env b f) (f, out)) = Inl err"
  shows "\<exists>err'. batch_process_videos b d out = Inl err'"
proof -
  let ?rs = "map (\<lambda>f. fst (process_video (asset_env b f) (f, out))) (video_files b d)"
  have "Inl err \<in> set ?rs"
    using assms by force
  then obtain err' where "collect ?rs = Inl err'"
    using collect_Inl by blast
  moreover have "video_files b d \<noteq> []"
    using assms(1) by auto
  ultimately show ?thesis
    by (simp add: batch_process_videos_def Let_def and_then_def)
qed




subsection \<open>The example worlds, evaluated\<close>

lemma env_ok_fields:
  "cpu_count env_ok = 8" "mkdir_ok env_ok d" "check_output env_ok c = Inr ''{}''"
  "json_loads env_ok s = Inr probe_json" "int_of_str env_ok s = None"
  "float_of_str env_ok ''30.000000'' = Some 30" "input_bytes env_ok = Some 52428800"
  "mp4_run env_ok c = Inr exit_ok" "mp4_exists env_ok" "webm_run env_ok c = Inr exit_ok"
  "mp4_bytes env_ok = Some 6291456" "webm_bytes env_ok = Some 5242880"
  "webm_retry_run env_ok c = Inr exit_ok" "webm_retry_bytes env_ok = Some 7340032"
  by (simp_all add: env_ok_def)

lemma env_no_probe_fields:
  "cpu_count env_no_probe = 8" "mkdir_ok env_no_probe d"
  "check_output env_no_probe c = Inl (CalledProcessError 1 c [] [])"
  "json_loads env_no_probe s = Inr probe_json" "int_of_str env_no_probe s = None"
  "float_of_str env_no_probe ''30.000000'' = Some 30"
  "input_bytes env_no_probe = Some 52428800" "mp4_run env_no_probe c = Inr exit_ok"
  "mp4_exists env_no_probe" "webm_run env_no_probe c = Inr exit_ok"
  "mp4_bytes env_no_probe = Some 6291456" "webm_bytes env_no_probe = Some 5242880"
  "webm_retry_run env_no_probe c = Inr exit_ok"
  "webm_retry_bytes env_no_probe = Some 7340032"
  by (simp_all add: env_no_probe_def env_ok_def)

lemma env_no_duration_fields:
  "cpu_count env_no_duration = 8" "mkdir_ok env_no_duration d"
  "check_output env_no_duration c = Inr ''{}''"
  "json_loads env_no_duration s = Inr (JDict [(''streams'', JList [JDict [(''width'', JInt 1920), (''height'', JInt 1080)]])])"
  "int_of_str env_no_duration s = None"
  "float_of_str env_no_duration ''30.000000'' = Some 30"
  "input_bytes env_no_duration = Some 52428800" "mp4_run env_no_duration c = Inr exit_ok"
  "mp4_exists env_no_duration" "webm_run env_no_duration c = Inr exit_ok"
  "mp4_bytes env_no_duration = Some 6291456" "webm_bytes env_no_duration = Some 5242880"
  "webm_retry_run env_no_duration c = Inr exit_ok"
  "webm_retry_bytes env_no_duration = Some 7340032"
  by (simp_all add: env_no_duration_def env_ok_def)

lemma env_no_ffmpeg_fields:
  "cpu_count env_no_ffmpeg = 8" "mkdir_ok env_no_ffmpeg d"
  "check_output env_no_ffmpeg c = Inr ''{}''" "json_loads env_no_ffmpeg s = Inr probe_json"
  "int_of_str env_no_ffmpeg s = None" "float_of_str env_no_ffmpeg ''30.000000'' = Some 30"
  "input_bytes env_no_ffmpeg = Some 52428800" "mp4_run env_no_ffmpeg c = Inl OSError"
  "mp4_exists env_no_ffmpeg" "webm_run env_no_ffmpeg c = Inr exit_ok"
  "mp4_bytes env_no_ffmpeg = Some 6291456" "webm_bytes env_no_ffmpeg = Some 5242880"
  "webm_retry_run env_no_ffmpeg c = Inr exit_ok"
  "webm_retry_bytes env_no_ffmpeg = Some 7340032"
  by (simp_all add: env_no_ffmpeg_def env_ok_def)

lemma env_mp4_fails_fields:
  "cpu_count env_mp4_fails = 8" "mkdir_ok env_mp4_fails d"
  "check_output env_mp4_fails c = Inr ''{}''" "json_loads env_mp4_fails s = Inr probe_json"
  "int_of_str env_mp4_fails s = None" "float_of_str env_mp4_fails ''30.000000'' = Some 30"
  "input_bytes env_mp4_fails = Some 52428800" "mp4_run env_mp4_fails c = Inr exit_boom"
  "mp4_exists env_mp4_fails" "webm_run env_mp4_fails c = Inr exit_ok"
  "mp4_bytes env_mp4_fails = Some 6291456" "webm_bytes env_mp4_fails = Some 5242880"
  "webm_retry_run env_mp4_fails c = Inr exit_ok"
  "webm_retry_bytes env_mp4_fails = Some 7340032"
  by (simp_all add: env_mp4_fails_def env_ok_def)

lemma env_big_webm_fields:
  "cpu_count env_big_webm = 8" "mkdir_ok env_big_webm d"
  "check_output env_big_webm c = Inr ''{}''" "json_loads env_big_webm s = Inr probe_json"
  "int_of_str env_big_webm s = None" "float_of_str env_big_webm ''30.000000'' = Some 30"
  "input_bytes env_big_webm = Some 52428800" "mp4_run env_big_webm c = Inr exit_ok"
  "mp4_exists env_big_webm" "webm_run env_big_webm c = Inr exit_ok"
  "mp4_bytes env_big_webm = Some 6291456" "webm_bytes env_big_webm = Some 8388608"
  "webm_retry_run env_big_webm c = Inr exit_ok"
  "webm_retry_bytes env_big_webm = Some 7340032"
  by (simp_all add: env_big_webm_def env_ok_def)

lemmas env_fields =
  env_ok_fields env_no_probe_fields env_no_duration_fields
  env_no_ffmpeg_fields env_mp4_fails_fields env_big_webm_fields

lemmas probe_defs = get_video_info_def get_video_info_try_def and_then_def dict_get_def
  subscript0_def py_int_def py_float_def

lemma probe_env_ok:
  "get_video_info env_ok f = Some \<lparr>width = 1920, height = 1080, duration = 30\<rparr>"
  "get_video_info env_no_ffmpeg f = Some \<lparr>width = 1920, height = 1080, duration = 30\<rparr>"
  "get_video_info env_mp4_fails f = Some \<lparr>width = 1920, height = 1080, duration = 30\<rparr>"
  "get_video_info env_big_webm f = Some \<lparr>width = 1920, height = 1080, duration = 30\<rparr>"
  by (simp_all add: env_fields probe_defs probe_json_def)


lemma probe_env_no_duration:
  "get_video_info env_no_duration f = Some \<lparr>width = 1920, height = 1080, duration = 0\<rparr>"
  by (simp add: env_fields probe_defs probe_json_def)

lemma example_paths:
  "output_filename ''in/a.mp4'' = ''a''"
  "mp4_output_path ''out'' ''a'' = ''out/mp4/a.mp4''"
  "webm_output_path ''out'' ''a'' = ''out/webm/a.webm''"
  by code_simp+

lemma example_threads:
  "ffmpeg_threads_of env_ok = 4" "ffmpeg_threads_of env_no_ffmpeg = 4"
  "ffmpeg_threads_of env_mp4_fails = 4" "ffmpeg_threads_of env_big_webm = 4"
  by (simp_all add: ffmpeg_threads_of_def env_fields)






lemma run_env_no_duration:
  "process_video env_no_duration (''in/a.mp4'', ''out'') = (Inl ZeroDivisionError, [])"
  by (rule run_zero_duration [where n = 52428800 and
        info = "\<lparr>width = 1920, height = 1080, duration = 0\<rparr>"])
    (simp_all add: env_fields probe_env_no_duration)





lemma run_env_mp4_fails:
  "process_video env_mp4_fails (''in/a.mp4'', ''out'') =
     (Inr (Some (Failure ''a''
        (str_CalledProcessError env_mp4_fails 1
           (mp4_cmd ''in/a.mp4'' 4 1677721 ''out/mp4/a.mp4'')))),
      [mp4_cmd ''in/a.mp4'' 4 1677721 ''out/mp4/a.mp4''])"
proof -
  have "process_video env_mp4_fails (''in/a.mp4'', ''out'') =
      except_CalledProcessError env_mp4_fails ''a''
        (process_video_try env_mp4_fails ''in/a.mp4'' ''a'' ''out/mp4/a.mp4''
           ''out/webm/a.webm'' (real 52428800 / (1024 * 1024)) 30 1677721 4)"
    using process_video_planned [of env_mp4_fails "''out''" "''in/a.mp4''"
        "\<lparr>width = 1920, height = 1080, duration = 30\<rparr>" 52428800 1677721]
    by (simp add: probe_env_ok example_paths example_threads bitrate_low env_fields)
  moreover have "process_video_try env_mp4_fails ''in/a.mp4'' ''a'' ''out/mp4/a.mp4''
      ''out/webm/a.webm'' (real 52428800 / (1024 * 1024)) 30 1677721 4 =
      (Inl (CalledProcessError (returncode exit_boom)
          (mp4_cmd ''in/a.mp4'' 4 1677721 ''out/mp4/a.mp4'') (stdout exit_boom)
          (stderr exit_boom)),
       [mp4_cmd ''in/a.mp4'' 4 1677721 ''out/mp4/a.mp4''])"
    by (rule process_video_try_mp4_nonzero) (simp_all add: env_fields exit_boom_def)
  ultimately show ?thesis
    by (simp add: exit_boom_def)
qed

lemma message_env_mp4_fails:
  "\<not> occurs_in ''boom''
     (str_CalledProcessError env_mp4_fails 1
        (mp4_cmd ''in/a.mp4'' 4 1677721 ''out/mp4/a.mp4''))"
  by (simp add: str_CalledProcessError_def str_list_def repr_str_def repr_char_def
      isprintable_def mp4_cmd_def scale_filter_def str_int_def str_nat.simps Let_def)


section \<open>The claims about the pipeline\<close>

text \<open>
  C9. The probe adapter never raises: whatever exception the body of its \<^verbatim>\<open>try\<close> raises
  (the tool missing or exiting with a non-zero status, output that does not parse), the
  function returns \<^verbatim>\<open>None\<close>. When the output parses and the first stream is an object,
  each of \<^verbatim>\<open>width\<close>, \<^verbatim>\<open>height\<close> and \<^verbatim>\<open>duration\<close> that is missing counts as 0, and when
  the fields that are present convert, the metadata is returned.
\<close>

theorem get_video_info_never_raises:
  "(get_video_info_try e f = Inl err \<longrightarrow> get_video_info e f = None) \<and>
   (check_output e (ffprobe_cmd f) = Inl err \<longrightarrow> get_video_info e f = None) \<and>
   (check_output e (ffprobe_cmd f) = Inr raw \<and> json_loads e raw = Inl err \<longrightarrow>
      get_video_info e f = None) \<and>
   (check_output e (ffprobe_cmd f) = Inr raw \<and> json_loads e raw = Inr (JDict items) \<and>
    map_of items ''streams'' = Some (JList (JDict s # rest)) \<and>
    (case map_of s ''width'' of None \<Rightarrow> Inr 0 | Some v \<Rightarrow> py_int e v) = Inr w \<and>
    (case map_of s ''height'' of None \<Rightarrow> Inr 0 | Some v \<Rightarrow> py_int e v) = Inr h \<and>
    (case map_of s ''duration'' of None \<Rightarrow> Inr 0 | Some v \<Rightarrow> py_float e v) = Inr d \<longrightarrow>
      get_video_info e f = Some \<lparr>width = w, height = h, duration = d\<rparr>)"
  by (auto simp: get_video_info_def get_video_info_try_def and_then_def dict_get_def
      subscript0_def py_int_def py_float_def split: option.splits)

theorem get_video_info_never_raises_witness:
  "get_video_info env_no_probe ''in/a.mp4'' = None \<and>
   get_video_info env_no_duration ''in/a.mp4'' =
     Some \<lparr>width = 1920, height = 1080, duration = 0\<rparr>"
  using get_video_info_never_raises [where e = env_no_probe and f = "''in/a.mp4''"
      and err = "CalledProcessError 1 (ffprobe_cmd ''in/a.mp4'') [] []"]
    get_video_info_never_raises [where e = env_no_duration and f = "''in/a.mp4''"
      and raw = "''{}''"
      and items = "[(''streams'', JList [JDict [(''width'', JInt 1920), (''height'', JInt 1080)]])]"
      and s = "[(''width'', JInt 1920), (''height'', JInt 1080)]" and rest = "[]"
      and w = 1920 and h = 1080 and d = 0]
  by (simp add: env_fields py_int_def)




text \<open>
  C2, as the code has it. For an asset whose probed duration is 0 (and whose directories
  and input size can be had), \<^verbatim>\<open>calculate_target_bitrate\<close> raises \<^verbatim>\<open>ZeroDivisionError\<close>;
  \<^verbatim>\<open>process_video\<close> does not catch it, so it leaves the function before any encoder call and
  no result record is made. A batch that holds the asset ends with an exception.
\<close>

theorem process_video_zero_duration_raises:
  "mkdir_ok e (path_join out ''mp4'') \<Longrightarrow> mkdir_ok e (path_join out ''webm'') \<Longrightarrow>
   get_video_info e f = Some info \<Longrightarrow> duration info = 0 \<Longrightarrow> input_bytes e = Some n \<Longrightarrow>
   calculate_target_bitrate (duration info) = Inl ZeroDivisionError \<and>
   process_video e (f, out) = (Inl ZeroDivisionError, []) \<and>
   (f \<in> set (video_files b d) \<and> asset_env b f = e \<longrightarrow>
      (\<exists>err. batch_process_videos b d out = Inl err))"
proof -
  assume a: "mkdir_ok e (path_join out ''mp4'')" "mkdir_ok e (path_join out ''webm'')"
    "get_video_info e f = Some info" "duration info = 0" "input_bytes e = Some n"
  have r: "process_video e (f, out) = (Inl ZeroDivisionError, [])"
    using a by (intro run_zero_duration) simp_all
  have "calculate_target_bitrate (duration info) = Inl ZeroDivisionError"
    using a(4) by (simp add: calculate_target_bitrate_def)
  moreover have "\<exists>err. batch_process_videos b d out = Inl err"
    if "f \<in> set (video_files b d) \<and> asset_env b f = e"
    using that r batch_aborts [of f b d out ZeroDivisionError] by simp
  ultimately show ?thesis
    using r by blast
qed

theorem process_video_zero_duration_raises_witness:
  "calculate_target_bitrate 0 = Inl ZeroDivisionError \<and>
   process_video env_no_duration (''in/c.mov'', ''out'') = (Inl ZeroDivisionError, [])"
  using process_video_zero_duration_raises [where e = env_no_duration and out = "''out''"
      and f = "''in/c.mov''" and info = "\<lparr>width = 1920, height = 1080, duration = 0\<rparr>"
      and n = 52428800]
  by (simp add: env_fields probe_env_no_duration)

text \<open>
  The claim as the specification states it (a Failure result with a zero-duration cause,
  no exception) fails on an asset whose probe output has no \<^verbatim>\<open>duration\<close> field: the probe
  adapter defaults the duration to 0 and the run raises \<^verbatim>\<open>ZeroDivisionError\<close>.
\<close>

theorem process_video_zero_duration_counterexample:
  "get_video_info env_no_duration ''in/a.mp4'' =
     Some \<lparr>width = 1920, height = 1080, duration = 0\<rparr> \<and>
   process_video env_no_duration (''in/a.mp4'', ''out'') = (Inl ZeroDivisionError, [])"
  by (simp add: probe_env_no_duration run_env_no_duration)







text \<open>
  C6, as the code has it. If the MP4 pass exits with a non-zero status, the run returns a
  Failure whose message is \<^verbatim>\<open>str(e)\<close> of the \<^verbatim>\<open>CalledProcessError\<close>, which is made of the
  command and the exit status; the encoder's stderr text is printed and is no part of the
  result. Only the MP4 command has run: the WebM encoder is never invoked.
\<close>

theorem mp4_failure_result:
  assumes "mkdir_ok e (path_join out ''mp4'')" "mkdir_ok e (path_join out ''webm'')"
    and "get_video_info e f = Some info" "input_bytes e = Some n"
    and "calculate_target_bitrate (duration info) = Inr tb"
    and "mo = mp4_output_path out (output_filename f)"
    and "th = ffmpeg_threads_of e"
    and "mp4_run e (mp4_cmd f th tb mo) = Inr r" "returncode r \<noteq> 0"
  shows "process_video e (f, out) =
       (Inr (Some (Failure (output_filename f)
          (str_CalledProcessError e (returncode r) (mp4_cmd f th tb mo)))),
        [mp4_cmd f th tb mo]) \<and>
     webm_calls (process_video e (f, out)) = 0"
proof -
  have "process_video e (f, out) =
      except_CalledProcessError e (output_filename f)
        (process_video_try e f (output_filename f) mo
           (webm_output_path out (output_filename f)) (real n / (1024 * 1024))
           (duration info) tb th)"
    using assms(1-5) unfolding assms(6,7) by (rule process_video_planned)
  also have "\<dots> =
      except_CalledProcessError e (output_filename f)
        (Inl (CalledProcessError (returncode r) (mp4_cmd f th tb mo) (stdout r) (stderr r)),
         [mp4_cmd f th tb mo])"
    using assms(8,9) by (simp add: process_video_try_mp4_nonzero)
  finally have "process_video e (f, out) =
      (Inr (Some (Failure (output_filename f)
         (str_CalledProcessError e (returncode r) (mp4_cmd f th tb mo)))),
       [mp4_cmd f th tb mo])"
    by simp
  then show ?thesis
    by (simp add: webm_calls_def is_webm_call_simps)
qed

theorem mp4_failure_result_witness:
  "process_video env_mp4_fails (''in/a.mp4'', ''out'') =
     (Inr (Some (Failure ''a''
        (str_CalledProcessError env_mp4_fails 1
           (mp4_cmd ''in/a.mp4'' 4 1677721 ''out/mp4/a.mp4'')))),
      [mp4_cmd ''in/a.mp4'' 4 1677721 ''out/mp4/a.mp4'']) \<and>
   webm_calls (process_video env_mp4_fails (''in/a.mp4'', ''out'')) = 0"
  using mp4_failure_result [where e = env_mp4_fails and out = "''out''"
      and f = "''in/a.mp4''" and info = "\<lparr>width = 1920, height = 1080, duration = 30\<rparr>"
      and n = 52428800 and tb = 1677721 and mo = "''out/mp4/a.mp4''" and th = 4
      and r = exit_boom]
  by (simp add: env_fields probe_env_ok example_paths example_threads bitrate_low
      exit_boom_def webm_calls_def is_webm_call_simps)

text \<open>
  The claim as the specification states it (the Failure carries the encoder's stderr) fails
  for an MP4 pass that exits with status 1 and the stderr text \<^verbatim>\<open>boom\<close>: the text does not
  occur in the message of the result.
\<close>

theorem mp4_failure_result_counterexample:
  "mp4_run env_mp4_fails (mp4_cmd ''in/a.mp4'' 4 1677721 ''out/mp4/a.mp4'') =
     Inr \<lparr>returncode = 1, stdout = [], stderr = ''boom''\<rparr> \<and>
   fst (process_video env_mp4_fails (''in/a.mp4'', ''out'')) =
     Inr (Some (Failure ''a''
       (str_CalledProcessError env_mp4_fails 1
          (mp4_cmd ''in/a.mp4'' 4 1677721 ''out/mp4/a.mp4'')))) \<and>
   \<not> occurs_in ''boom''
     (str_CalledProcessError env_mp4_fails 1
        (mp4_cmd ''in/a.mp4'' 4 1677721 ''out/mp4/a.mp4''))"
  using message_env_mp4_fails
  by (simp add: run_env_mp4_fails env_fields exit_boom_def)

end
